theory Spec2Isabelle
  imports Main "HOL-Library.Word"
begin

section \<open>Python values, classes and exceptions\<close>

text \<open>
  The two modules \<^verbatim>\<open>dsigm/_core.py\<close> and \<^verbatim>\<open>dsigm/_utils.py\<close> work on untyped Python
  values, so the embedding has one datatype of values. Objects of classes are
  references: a class and an address. A float is carried as its 64-bit pattern and is
  never interpreted here.
\<close>

datatype dtype = Dt_bool | Dt_int64 | Dt_uint64 | Dt_float64 | Dt_str | Dt_object

datatype pyclass =
    C_NoneType | C_bool | C_int | C_float | C_str | C_list | C_tuple
  | C_type | C_module | C_function
  | C_ndarray
  | C_generic dtype
  | C_integer
  | C_RandomState
  | C_Core
  | C_CoreCluster
  | C_other string

datatype pyval =
    VNone
  | VBool bool
  | VInt int
  | VFloat "64 word"
  | VStr string
  | VList "pyval list"
  | VTuple "pyval list"
  | VGeneric dtype pyval
  | VArray dtype "nat list" "pyval list"
  | VInstance pyclass nat
  | VClass pyclass
  | VModule string
  | VFunction string

datatype error =
    ValueError string
  | TypeError string
  | AttributeError string
  | NameError string
  | IndexError string

text \<open>
  \<open>VGeneric dt v\<close> is a NumPy scalar (an instance of \<^verbatim>\<open>np.generic\<close>) of dtype \<open>dt\<close>;
  \<open>VArray dt sh items\<close> is an \<^verbatim>\<open>ndarray\<close> of dtype \<open>dt\<close> and shape \<open>sh\<close> with its
  elements in row-major order; \<open>C_other\<close> stands for any class that is neither a number
  nor a sequence.
\<close>

fun type_of :: "pyval \<Rightarrow> pyclass" where
  "type_of VNone = C_NoneType"
| "type_of (VBool b) = C_bool"
| "type_of (VInt i) = C_int"
| "type_of (VFloat f) = C_float"
| "type_of (VStr s) = C_str"
| "type_of (VList xs) = C_list"
| "type_of (VTuple xs) = C_tuple"
| "type_of (VGeneric dt v) = C_generic dt"
| "type_of (VArray dt sh items) = C_ndarray"
| "type_of (VInstance c a) = c"
| "type_of (VClass c) = C_type"
| "type_of (VModule m) = C_module"
| "type_of (VFunction f) = C_function"

fun dtype_name :: "dtype \<Rightarrow> string" where
  "dtype_name Dt_bool = ''bool_''"
| "dtype_name Dt_int64 = ''int64''"
| "dtype_name Dt_uint64 = ''uint64''"
| "dtype_name Dt_float64 = ''float64''"
| "dtype_name Dt_str = ''str_''"
| "dtype_name Dt_object = ''object_''"

fun class_name :: "pyclass \<Rightarrow> string" where
  "class_name C_NoneType = ''NoneType''"
| "class_name C_bool = ''bool''"
| "class_name C_int = ''int''"
| "class_name C_float = ''float''"
| "class_name C_str = ''str''"
| "class_name C_list = ''list''"
| "class_name C_tuple = ''tuple''"
| "class_name C_type = ''type''"
| "class_name C_module = ''module''"
| "class_name C_function = ''function''"
| "class_name C_ndarray = ''ndarray''"
| "class_name (C_generic dt) = dtype_name dt"
| "class_name C_integer = ''integer''"
| "class_name C_RandomState = ''RandomState''"
| "class_name C_Core = ''Core''"
| "class_name C_CoreCluster = ''CoreCluster''"
| "class_name (C_other n) = n"

subsection \<open>The builtin \<^verbatim>\<open>isinstance\<close>\<close>

text \<open>
  \<^verbatim>\<open>bool\<close> is a subclass of \<^verbatim>\<open>int\<close>; \<^verbatim>\<open>np.int64\<close> and \<^verbatim>\<open>np.uint64\<close> are subclasses of
  \<^verbatim>\<open>np.integer\<close>, \<^verbatim>\<open>np.float64\<close> one of \<^verbatim>\<open>float\<close> and \<^verbatim>\<open>np.str_\<close> one of \<^verbatim>\<open>str\<close>.
\<close>

definition issubclass :: "pyclass \<Rightarrow> pyclass \<Rightarrow> bool" where
  "issubclass c d =
     (c = d \<or> (c = C_bool \<and> d = C_int)
      \<or> (c = C_generic Dt_int64 \<and> d = C_integer)
      \<or> (c = C_generic Dt_uint64 \<and> d = C_integer)
      \<or> (c = C_generic Dt_float64 \<and> d = C_float)
      \<or> (c = C_generic Dt_str \<and> d = C_str))"

definition isinstance_msg :: string where
  "isinstance_msg = ''isinstance() arg 2 must be a type, a tuple of types, or a union''"

text \<open>
  The second argument is a class or a tuple of such arguments. A tuple is tried from the
  left: the first member that matches ends the search with \<^verbatim>\<open>True\<close>, and a member that
  is neither a class nor a tuple raises \<^verbatim>\<open>TypeError\<close> when the search reaches it.
\<close>

fun isinstance :: "pyval \<Rightarrow> pyval \<Rightarrow> error + bool"
  and isinstance_tuple :: "pyval \<Rightarrow> pyval list \<Rightarrow> error + bool" where
  "isinstance x (VClass c) = Inr (issubclass (type_of x) c)"
| "isinstance x (VTuple cs) = isinstance_tuple x cs"
| "isinstance x VNone = Inl (TypeError isinstance_msg)"
| "isinstance x (VBool b) = Inl (TypeError isinstance_msg)"
| "isinstance x (VInt i) = Inl (TypeError isinstance_msg)"
| "isinstance x (VFloat f) = Inl (TypeError isinstance_msg)"
| "isinstance x (VStr s) = Inl (TypeError isinstance_msg)"
| "isinstance x (VList xs) = Inl (TypeError isinstance_msg)"
| "isinstance x (VGeneric dt v) = Inl (TypeError isinstance_msg)"
| "isinstance x (VArray dt sh items) = Inl (TypeError isinstance_msg)"
| "isinstance x (VInstance c a) = Inl (TypeError isinstance_msg)"
| "isinstance x (VModule m) = Inl (TypeError isinstance_msg)"
| "isinstance x (VFunction f) = Inl (TypeError isinstance_msg)"
| "isinstance_tuple x [] = Inr False"
| "isinstance_tuple x (c # cs) =
     (case isinstance x c of
        Inl e \<Rightarrow> Inl e
      | Inr b \<Rightarrow> if b then Inr True else isinstance_tuple x cs)"

subsection \<open>Attributes of an instance\<close>

text \<open>
  An instance of \<^verbatim>\<open>Core\<close> or \<^verbatim>\<open>CoreCluster\<close> is its attribute dictionary. Reading an
  attribute that was never assigned raises \<^verbatim>\<open>AttributeError\<close>.
\<close>

type_synonym obj = "string \<rightharpoonup> pyval"

definition getattr :: "obj \<Rightarrow> string \<Rightarrow> error + pyval" where
  "getattr self name =
     (case self name of None \<Rightarrow> Inl (AttributeError name) | Some v \<Rightarrow> Inr v)"

section \<open>The NumPy calls of the two modules\<close>

subsection \<open>\<^verbatim>\<open>np.isscalar\<close>\<close>

text \<open>
  True for Python numbers and strings and for NumPy scalars; false for \<^verbatim>\<open>None\<close>, for
  sequences and for every \<^verbatim>\<open>ndarray\<close>, also one of zero dimensions.
\<close>

fun isscalar :: "pyval \<Rightarrow> bool" where
  "isscalar (VBool b) = True"
| "isscalar (VInt i) = True"
| "isscalar (VFloat f) = True"
| "isscalar (VStr s) = True"
| "isscalar (VGeneric dt v) = True"
| "isscalar VNone = False"
| "isscalar (VList xs) = False"
| "isscalar (VTuple xs) = False"
| "isscalar (VArray dt sh items) = False"
| "isscalar (VInstance c a) = False"
| "isscalar (VClass c) = False"
| "isscalar (VModule m) = False"
| "isscalar (VFunction f) = False"

subsection \<open>\<^verbatim>\<open>np.asarray\<close>\<close>

text \<open>
  Lists, tuples and arrays nest into the dimensions of the result; everything else is
  an element. The members of a sequence must agree on their shape, otherwise the
  conversion raises \<^verbatim>\<open>ValueError\<close> (an inhomogeneous shape). It raises \<^verbatim>\<open>ValueError\<close> as
  well when the nesting has more dimensions than an array can have, 64 of them.
\<close>

definition max_dims :: nat where
  "max_dims = 64"

definition list_shape :: "nat list option list \<Rightarrow> nat list option" where
  "list_shape ss =
     (case ss of
        [] \<Rightarrow> Some [0]
      | s # rest \<Rightarrow>
          (case s of
             None \<Rightarrow> None
           | Some sh \<Rightarrow> if list_all (\<lambda>t. t = Some sh) rest
                        then Some (length ss # sh) else None))"

fun shape_of :: "pyval \<Rightarrow> nat list option" where
  "shape_of (VList xs) = list_shape (map shape_of xs)"
| "shape_of (VTuple xs) = list_shape (map shape_of xs)"
| "shape_of (VArray dt sh items) = Some sh"
| "shape_of v = Some []"

text \<open>
  An array of a dtype other than \<^verbatim>\<open>object\<close> keeps the Python payload of its elements and
  hands them out as NumPy scalars of its dtype.
\<close>

definition box :: "dtype \<Rightarrow> pyval \<Rightarrow> pyval" where
  "box dt v = (if dt = Dt_object then v else VGeneric dt v)"

fun leaves :: "pyval \<Rightarrow> pyval list" where
  "leaves (VList xs) = concat (map leaves xs)"
| "leaves (VTuple xs) = concat (map leaves xs)"
| "leaves (VArray dt sh items) = map (box dt) items"
| "leaves v = [v]"

text \<open>
  The dtype of the result: booleans, then 64-bit integers, then floats, then strings;
  whatever is not a number or a string makes an array of objects. A Python integer
  is signed when it fits 64 bits, unsigned when only that fits, and an object beyond;
  signed and unsigned integers together make floats.
\<close>

fun leaf_dtype :: "pyval \<Rightarrow> dtype" where
  "leaf_dtype (VBool b) = Dt_bool"
| "leaf_dtype (VInt i) =
     (if - (2 ^ 63) \<le> i \<and> i < 2 ^ 63 then Dt_int64
      else if 2 ^ 63 \<le> i \<and> i < 2 ^ 64 then Dt_uint64
      else Dt_object)"
| "leaf_dtype (VFloat f) = Dt_float64"
| "leaf_dtype (VStr s) = Dt_str"
| "leaf_dtype (VGeneric dt v) = dt"
| "leaf_dtype v = Dt_object"

fun dtype_rank :: "dtype \<Rightarrow> nat" where
  "dtype_rank Dt_bool = 0"
| "dtype_rank Dt_int64 = 1"
| "dtype_rank Dt_uint64 = 2"
| "dtype_rank Dt_float64 = 3"
| "dtype_rank Dt_str = 4"
| "dtype_rank Dt_object = 5"

definition promote :: "dtype \<Rightarrow> dtype \<Rightarrow> dtype" where
  "promote a b =
     (if (a = Dt_int64 \<and> b = Dt_uint64) \<or> (a = Dt_uint64 \<and> b = Dt_int64) then Dt_float64
      else if dtype_rank a \<le> dtype_rank b then b else a)"

definition result_dtype :: "pyval list \<Rightarrow> dtype" where
  "result_dtype ls =
     (case ls of
        [] \<Rightarrow> Dt_float64
      | l # rest \<Rightarrow> fold promote (map leaf_dtype rest) (leaf_dtype l))"

fun payload :: "dtype \<Rightarrow> pyval \<Rightarrow> pyval" where
  "payload dt (VGeneric dt' v) = (if dt = Dt_object then VGeneric dt' v else v)"
| "payload dt v = v"

text \<open>
  Both refusals raise \<^verbatim>\<open>ValueError\<close> with a message that starts with the sentence
  below and goes on with the shape that was detected, or with the limit; the model
  keeps the sentence.
\<close>

definition sequence_msg :: string where
  "sequence_msg = ''setting an array element with a sequence.''"

definition asarray :: "pyval \<Rightarrow> error + pyval" where
  "asarray v =
     (case v of
        VArray dt sh items \<Rightarrow> Inr (VArray dt sh items)
      | _ \<Rightarrow>
          (case shape_of v of
             None \<Rightarrow> Inl (ValueError sequence_msg)
           | Some sh \<Rightarrow>
               if max_dims < length sh then Inl (ValueError sequence_msg)
               else (let dt = result_dtype (leaves v)
                     in Inr (VArray dt sh (map (payload dt) (leaves v))))))"

text \<open>
  The arguments that the conversion refuses: a nesting of inhomogeneous shape, or one
  of more than 64 dimensions. An array is handed back as it is.
\<close>

definition refused :: "pyval \<Rightarrow> bool" where
  "refused v =
     (case v of
        VArray dt sh items \<Rightarrow> False
      | _ \<Rightarrow> (case shape_of v of None \<Rightarrow> True | Some sh \<Rightarrow> max_dims < length sh))"

text \<open>A value wrapped in \<open>n\<close> lists of one member: \<^verbatim>\<open>[[...[v]...]]\<close>.\<close>

fun nested :: "nat \<Rightarrow> pyval \<Rightarrow> pyval" where
  "nested 0 v = v"
| "nested (Suc n) v = VList [nested n v]"

subsection \<open>Iterating over an array, and its shape\<close>

text \<open>
  \<^verbatim>\<open>for item in a\<close> walks the first axis: an array of zero dimensions raises
  \<^verbatim>\<open>TypeError\<close>, one of a single dimension yields its elements, a higher one yields the
  sub-arrays.
\<close>

definition array_iter :: "dtype \<Rightarrow> nat list \<Rightarrow> pyval list \<Rightarrow> error + pyval list" where
  "array_iter dt sh items =
     (case sh of
        [] \<Rightarrow> Inl (TypeError ''iteration over a 0-d array'')
      | n # rest \<Rightarrow>
          if rest = [] then Inr (map (box dt) (take n items))
          else (let k = prod_list rest
                in Inr (map (\<lambda>i. VArray dt rest (take k (drop (i * k) items))) [0..<n])))"

fun iter :: "pyval \<Rightarrow> error + pyval list" where
  "iter (VList xs) = Inr xs"
| "iter (VTuple xs) = Inr xs"
| "iter (VStr s) = Inr (map (\<lambda>c. VStr [c]) s)"
| "iter (VArray dt sh items) = array_iter dt sh items"
| "iter v = Inl (TypeError (class_name (type_of v) @ '' object is not iterable''))"

text \<open>\<^verbatim>\<open>a.shape[-1]\<close>: only an array has a shape, and the empty shape has no last entry.\<close>

fun shape_last :: "pyval \<Rightarrow> error + nat" where
  "shape_last (VArray dt sh items) =
     (if sh = [] then Inl (IndexError ''tuple index out of range'') else Inr (last sh))"
| "shape_last v = Inl (AttributeError ''shape'')"

section \<open>\<^verbatim>\<open>dsigm/_utils.py\<close>\<close>

subsection \<open>\<^verbatim>\<open>format_array\<close>\<close>

text \<open>The body is \<^verbatim>\<open>pass\<close>: the call returns \<^verbatim>\<open>None\<close> for every argument.\<close>

definition format_array :: "pyval \<Rightarrow> pyval" where
  "format_array array = VNone"

subsection \<open>Names of a module\<close>

text \<open>
  A name that a function reads is looked up in the globals of its module and then in
  the builtins, and raises \<^verbatim>\<open>NameError\<close> when neither binds it. The globals of
  \<^verbatim>\<open>_utils.py\<close> are what its top-level statements bind: the docstring and the two
  \<^verbatim>\<open>def\<close>s. The module has no \<^verbatim>\<open>import\<close> statement.
\<close>

type_synonym namespace = "string \<rightharpoonup> pyval"

definition builtins :: namespace where
  "builtins =
     [''int'' \<mapsto> VClass C_int,
      ''isinstance'' \<mapsto> VFunction ''isinstance'',
      ''ValueError'' \<mapsto> VClass (C_other ''ValueError'')]"

definition load_name :: "namespace \<Rightarrow> string \<Rightarrow> error + pyval" where
  "load_name globals name =
     (case globals name of
        Some v \<Rightarrow> Inr v
      | None \<Rightarrow> (case builtins name of Some v \<Rightarrow> Inr v | None \<Rightarrow> Inl (NameError name)))"

definition utils_globals :: namespace where
  "utils_globals =
     [''__doc__'' \<mapsto> VStr ''Utilities for Various Tasks'',
      ''format_array'' \<mapsto> VFunction ''format_array'',
      ''create_random_state'' \<mapsto> VFunction ''create_random_state'']"

subsection \<open>\<^verbatim>\<open>create_random_state\<close>\<close>

text \<open>
  What the function asks of NumPy, once it holds the module: the shared generator
  \<^verbatim>\<open>np.random.mtrand._rand\<close> and the constructor \<^verbatim>\<open>np.random.RandomState(seed=...)\<close> are
  parameters of the model; \<^verbatim>\<open>np.integer\<close> and \<^verbatim>\<open>np.random.RandomState\<close> are classes.
\<close>

record np_random =
  mtrand_rand :: pyval
  RandomState :: "pyval \<Rightarrow> error + pyval"

definition np_attr :: "np_random \<Rightarrow> pyval \<Rightarrow> string \<Rightarrow> error + pyval" where
  "np_attr lib np name =
     (if np = VModule ''numpy'' then
        (if name = ''integer'' then Inr (VClass C_integer)
         else if name = ''random.RandomState'' then Inr (VClass C_RandomState)
         else if name = ''random.mtrand._rand'' then Inr (mtrand_rand lib)
         else Inl (AttributeError name))
      else Inl (AttributeError name))"

definition seed_msg :: string where
  "seed_msg = ''Seed must be None, an int, or a Random State''"

text \<open>
  The arguments of a call are evaluated from the left before the call: the tuple
  \<^verbatim>\<open>(int, np.integer)\<close> is built, reading \<^verbatim>\<open>np\<close>, before \<^verbatim>\<open>isinstance\<close> runs.
\<close>

definition create_random_state :: "np_random \<Rightarrow> namespace \<Rightarrow> pyval \<Rightarrow> error + pyval" where
  "create_random_state lib globals seed =
     (if seed = VNone then
        (case load_name globals ''np'' of
           Inl e \<Rightarrow> Inl e
         | Inr np \<Rightarrow> np_attr lib np ''random.mtrand._rand'')
      else
        (case load_name globals ''int'' of
           Inl e \<Rightarrow> Inl e
         | Inr int_class \<Rightarrow>
        (case load_name globals ''np'' of
           Inl e \<Rightarrow> Inl e
         | Inr np \<Rightarrow>
        (case np_attr lib np ''integer'' of
           Inl e \<Rightarrow> Inl e
         | Inr integer_class \<Rightarrow>
        (case isinstance seed (VTuple [int_class, integer_class]) of
           Inl e \<Rightarrow> Inl e
         | Inr is_int \<Rightarrow>
             if is_int then
               (case load_name globals ''np'' of
                  Inl e \<Rightarrow> Inl e
                | Inr np \<Rightarrow>
               (case np_attr lib np ''random.RandomState'' of
                  Inl e \<Rightarrow> Inl e
                | Inr cls \<Rightarrow> RandomState lib seed))
             else
               (case load_name globals ''np'' of
                  Inl e \<Rightarrow> Inl e
                | Inr np \<Rightarrow>
               (case np_attr lib np ''random.RandomState'' of
                  Inl e \<Rightarrow> Inl e
                | Inr cls \<Rightarrow>
               (case isinstance seed cls of
                  Inl e \<Rightarrow> Inl e
                | Inr is_state \<Rightarrow>
                    if is_state then Inr seed else Inl (ValueError seed_msg)))))))))"

section \<open>\<^verbatim>\<open>dsigm/_core.py\<close>\<close>

text \<open>
  Every global name that the two classes read is bound by the module: \<^verbatim>\<open>mvn\<close>, \<^verbatim>\<open>np\<close>
  and \<^verbatim>\<open>format_array\<close> by its imports, \<^verbatim>\<open>Core\<close> and \<^verbatim>\<open>CoreCluster\<close> by its two class
  statements, both of which have run before any method is called.
\<close>

subsection \<open>\<^verbatim>\<open>Core\<close>\<close>

definition mu_msg :: string where
  "mu_msg = ''Invalid argument provided for mu. Must be a vector''"

definition sigma_msg :: string where
  "sigma_msg = ''Invalid argument provided for sigma. Must be a vector''"

definition delta_msg :: string where
  "delta_msg = ''Invalid argument provided for delta. Must be a vector''"

definition cluster_msg :: string where
  "cluster_msg = ''Invalid argument provided for cluster. Must be None or CoreCluster. Found ''"

definition mismatch_msg :: string where
  "mismatch_msg = ''Mismatch in dimensions between mu and sigma''"

text \<open>
  \<^verbatim>\<open>_validate_init\<close> reads the attributes of \<open>self\<close> and, when every check passes, assigns
  \<^verbatim>\<open>self.dim\<close>: the model returns the updated instance.
\<close>

definition Core_validate_init :: "obj \<Rightarrow> error + obj" where
  "Core_validate_init self =
     (case getattr self ''mu'' of
        Inl e \<Rightarrow> Inl e
      | Inr mu \<Rightarrow>
     if isscalar mu then Inl (ValueError mu_msg) else
     (case getattr self ''sigma'' of
        Inl e \<Rightarrow> Inl e
      | Inr sigma \<Rightarrow>
     if isscalar sigma then Inl (ValueError sigma_msg) else
     (case getattr self ''delta'' of
        Inl e \<Rightarrow> Inl e
      | Inr delta \<Rightarrow>
     if isscalar delta then Inl (ValueError delta_msg) else
     (case getattr self ''cluster'' of
        Inl e \<Rightarrow> Inl e
      | Inr cluster \<Rightarrow>
     (case isinstance cluster (VTuple [VNone, VClass C_CoreCluster]) of
        Inl e \<Rightarrow> Inl e
      | Inr ok \<Rightarrow>
     if \<not> ok then Inl (ValueError (cluster_msg @ class_name (type_of cluster))) else
     (case shape_last mu of
        Inl e \<Rightarrow> Inl e
      | Inr m \<Rightarrow>
     (case shape_last sigma of
        Inl e \<Rightarrow> Inl e
      | Inr s \<Rightarrow>
     if m = s then Inr (self(''dim'' \<mapsto> VInt (int m)))
     else Inl (ValueError mismatch_msg))))))))"

definition Core_init :: "pyval \<Rightarrow> pyval \<Rightarrow> pyval \<Rightarrow> pyval \<Rightarrow> error + obj" where
  "Core_init mu sigma delta cluster =
     (case asarray mu of
        Inl e \<Rightarrow> Inl e
      | Inr mu_array \<Rightarrow>
     (case asarray sigma of
        Inl e \<Rightarrow> Inl e
      | Inr sigma_array \<Rightarrow>
          Core_validate_init
            [''dim'' \<mapsto> VInt (- 1), ''mu'' \<mapsto> mu_array, ''sigma'' \<mapsto> sigma_array,
             ''delta'' \<mapsto> delta, ''cluster'' \<mapsto> cluster]))"

text \<open>The defaults of the signature: \<^verbatim>\<open>mu=[0], sigma=[1], delta=1, cluster=None\<close>.\<close>

definition Core_default :: "error + obj" where
  "Core_default = Core_init (VList [VInt 0]) (VList [VInt 1]) (VInt 1) VNone"

text \<open>
  \<^verbatim>\<open>pdf\<close> formats the query, validates the instance again and hands both to
  \<^verbatim>\<open>scipy.stats.multivariate_normal.pdf\<close>, a parameter of the model (its arguments are
  \<^verbatim>\<open>x\<close>, \<^verbatim>\<open>mean\<close> and \<^verbatim>\<open>cov\<close>). The result is the returned value and the instance as the
  call leaves it.
\<close>

definition pdf ::
  "(pyval \<Rightarrow> pyval \<Rightarrow> pyval \<Rightarrow> error + pyval) \<Rightarrow> obj \<Rightarrow> pyval \<Rightarrow> error + pyval \<times> obj" where
  "pdf mvn_pdf self data =
     (let data = format_array data in
      (case Core_validate_init self of
         Inl e \<Rightarrow> Inl e
       | Inr self \<Rightarrow>
      (case getattr self ''mu'' of
         Inl e \<Rightarrow> Inl e
       | Inr mu \<Rightarrow>
      (case getattr self ''sigma'' of
         Inl e \<Rightarrow> Inl e
       | Inr sigma \<Rightarrow>
      (case mvn_pdf data mu sigma of
         Inl e \<Rightarrow> Inl e
       | Inr density \<Rightarrow> Inr (density, self))))))"

subsection \<open>\<^verbatim>\<open>CoreCluster\<close>\<close>

definition cores_msg :: string where
  "cores_msg = ''Invalid argument provided for cores. Must be a list of Cores''"

definition parents_msg :: string where
  "parents_msg = ''Invalid argument provided for parents. Must be a list of CoreClusters''"

definition children_msg :: string where
  "children_msg = ''Invalid argument provided for children. Must be a list of CoreClusters''"

text \<open>
  One of the three checks of \<^verbatim>\<open>_validate_init\<close>: the attribute must not be a scalar, and
  the set of the types of its items must be exactly the expected class.
\<close>

definition check_collection :: "obj \<Rightarrow> string \<Rightarrow> pyclass \<Rightarrow> string \<Rightarrow> error + unit" where
  "check_collection self name cls msg =
     (case getattr self name of
        Inl e \<Rightarrow> Inl e
      | Inr coll \<Rightarrow>
     if isscalar coll then Inl (ValueError msg) else
     (case getattr self name of
        Inl e \<Rightarrow> Inl e
      | Inr coll \<Rightarrow>
     (case iter coll of
        Inl e \<Rightarrow> Inl e
      | Inr items \<Rightarrow>
          (let types = set (map type_of items)
           in if card types \<noteq> 1 \<or> cls \<notin> types then Inl (ValueError msg)
              else Inr ()))))"

definition CoreCluster_validate_init :: "obj \<Rightarrow> error + obj" where
  "CoreCluster_validate_init self =
     (case check_collection self ''cores'' C_Core cores_msg of
        Inl e \<Rightarrow> Inl e
      | Inr u \<Rightarrow>
     (case check_collection self ''parents'' C_CoreCluster parents_msg of
        Inl e \<Rightarrow> Inl e
      | Inr u \<Rightarrow>
     (case check_collection self ''children'' C_CoreCluster children_msg of
        Inl e \<Rightarrow> Inl e
      | Inr u \<Rightarrow> Inr self)))"

text \<open>
  \<^verbatim>\<open>__init__\<close> assigns \<^verbatim>\<open>self.cores\<close>, \<^verbatim>\<open>self.parent\<close> and \<^verbatim>\<open>self.children\<close>, in this order and
  under these names, and validates.
\<close>

definition CoreCluster_init :: "pyval \<Rightarrow> pyval \<Rightarrow> pyval \<Rightarrow> error + obj" where
  "CoreCluster_init cores parents children =
     (case asarray cores of
        Inl e \<Rightarrow> Inl e
      | Inr cores_array \<Rightarrow>
     (case asarray parents of
        Inl e \<Rightarrow> Inl e
      | Inr parents_array \<Rightarrow>
     (case asarray children of
        Inl e \<Rightarrow> Inl e
      | Inr children_array \<Rightarrow>
          CoreCluster_validate_init
            [''cores'' \<mapsto> cores_array, ''parent'' \<mapsto> parents_array,
             ''children'' \<mapsto> children_array])))"

section \<open>Properties of the library calls\<close>

lemma asarray_refused: "refused v \<Longrightarrow> asarray v = Inl (ValueError sequence_msg)"
  by (cases v) (auto simp: asarray_def refused_def split: option.splits)

lemma asarray_not_refused:
  "\<not> refused v \<Longrightarrow> \<exists>dt sh items. asarray v = Inr (VArray dt sh items)"
  by (cases v) (auto simp: asarray_def refused_def Let_def split: option.splits)

text \<open>
  A list or a tuple has a first dimension of 0 only when it is empty, so the limit on
  the dimensions does not touch an empty collection.
\<close>

lemma list_shape_empty: "list_shape ss = Some (0 # sh) \<Longrightarrow> ss = [] \<and> sh = []"
  by (auto simp: list_shape_def split: list.splits option.splits if_splits)

lemma asarray_empty:
  "shape_of v = Some (0 # sh) \<Longrightarrow> \<exists>dt items. asarray v = Inr (VArray dt (0 # sh) items)"
proof (cases v)
  case (VList xs)
  assume "shape_of v = Some (0 # sh)"
  with VList have "xs = [] \<and> sh = []"
    using list_shape_empty [of "map shape_of xs" sh] by simp
  with VList show ?thesis
    by (simp add: asarray_def list_shape_def max_dims_def)
next
  case (VTuple xs)
  assume "shape_of v = Some (0 # sh)"
  with VTuple have "xs = [] \<and> sh = []"
    using list_shape_empty [of "map shape_of xs" sh] by simp
  with VTuple show ?thesis
    by (simp add: asarray_def list_shape_def max_dims_def)
qed (simp_all add: asarray_def)

text \<open>A number nested \<open>n\<close> deep has \<open>n\<close> dimensions, and is refused from 65 on.\<close>

lemma shape_of_nested: "shape_of (nested n (VInt i)) = Some (replicate n 1)"
  by (induction n) (simp_all add: list_shape_def)

lemma refused_nested: "refused (nested n (VInt i)) = (max_dims < n)"
proof (cases n)
  case 0
  then show ?thesis by (simp add: refused_def)
next
  case (Suc m)
  have "shape_of (nested (Suc m) (VInt i)) = Some (replicate (Suc m) 1)"
    by (rule shape_of_nested)
  then show ?thesis
    using Suc by (simp add: refused_def del: shape_of.simps replicate.simps)
qed

lemma refused_vector: "\<not> refused (VList [VInt i])"
  by (simp add: refused_def list_shape_def max_dims_def)

lemma asarray_not_scalar: "asarray v = Inr a \<Longrightarrow> \<not> isscalar a"
  by (cases v) (auto simp: asarray_def Let_def split: option.splits if_splits)

lemma array_iter_empty: "array_iter dt (0 # sh) items = Inr []"
  by (simp add: array_iter_def Let_def)

text \<open>
  \<^verbatim>\<open>None\<close> is no class: a tuple that starts with it makes \<^verbatim>\<open>isinstance\<close> raise whatever
  the object and whatever follows in the tuple.
\<close>

lemma isinstance_None_first:
  "isinstance x (VTuple (VNone # cs)) = Inl (TypeError isinstance_msg)"
  by simp

section \<open>\<^verbatim>\<open>Core\<close>: construction and density\<close>

text \<open>
  The validation of a \<^verbatim>\<open>Core\<close> never returns: either an attribute is missing, or one
  of the scalar checks raises, or the \<^verbatim>\<open>isinstance\<close> test on the cluster raises.
\<close>

lemma Core_validate_init_raises: "\<exists>e. Core_validate_init self = Inl e"
  by (auto simp: Core_validate_init_def split: sum.splits)

lemma Core_validate_init_arrays:
  "Core_validate_init
     [''dim'' \<mapsto> d, ''mu'' \<mapsto> VArray dt1 sh1 xs1, ''sigma'' \<mapsto> VArray dt2 sh2 xs2,
      ''delta'' \<mapsto> delta, ''cluster'' \<mapsto> cluster] =
   Inl (if isscalar delta then ValueError delta_msg else TypeError isinstance_msg)"
  by (simp add: Core_validate_init_def getattr_def)

lemma Core_init_result:
  "Core_init mu sigma delta cluster =
     Inl (if refused mu \<or> refused sigma then ValueError sequence_msg
          else if isscalar delta then ValueError delta_msg
          else TypeError isinstance_msg)"
proof (cases "refused mu")
  case True
  then show ?thesis by (simp add: Core_init_def asarray_refused)
next
  case mu: False
  then obtain dt1 sh1 xs1 where a1: "asarray mu = Inr (VArray dt1 sh1 xs1)"
    using asarray_not_refused by blast
  show ?thesis
  proof (cases "refused sigma")
    case True
    then show ?thesis by (simp add: Core_init_def a1 asarray_refused)
  next
    case False
    then obtain dt2 sh2 xs2 where a2: "asarray sigma = Inr (VArray dt2 sh2 xs2)"
      using asarray_not_refused by blast
    show ?thesis
      using mu False by (simp add: Core_init_def a1 a2 Core_validate_init_arrays)
  qed
qed

text \<open>
  A mean nested 65 deep is refused by the conversion; one nested 64 deep converts, and
  the call goes on to the cluster check.
\<close>

lemma Core_init_deep_mu:
  "Core_init (nested 65 (VInt 0)) (VList [VInt 1]) (VList [VInt 1]) VNone
     = Inl (ValueError sequence_msg)"
  by (simp add: Core_init_result refused_nested max_dims_def)

lemma Core_init_deep_mu_converts:
  "Core_init (nested 64 (VInt 0)) (VList [VInt 1]) (VList [VInt 1]) VNone
     = Inl (TypeError isinstance_msg)"
  by (simp add: Core_init_result refused_nested refused_vector max_dims_def)

lemmas Core_eval =
  refused_def max_dims_def list_shape_def asarray_def result_dtype_def promote_def box_def
  Core_init_def Core_validate_init_def getattr_def

text \<open>
  C2, as amended. For every argument list the construction of a \<^verbatim>\<open>Core\<close> raises, so no
  \<^verbatim>\<open>Core\<close> is ever constructed. There are three ways, in this order: \<^verbatim>\<open>np.asarray\<close>
  refuses \<^verbatim>\<open>mu\<close> or \<^verbatim>\<open>sigma\<close> with \<^verbatim>\<open>ValueError\<close>; or \<^verbatim>\<open>delta\<close> is a bare scalar and its
  check raises \<^verbatim>\<open>ValueError\<close>; or the call reaches the cluster check, whose
  \<^verbatim>\<open>isinstance\<close> test against \<^verbatim>\<open>(None, CoreCluster)\<close> raises \<^verbatim>\<open>TypeError\<close>. The scalar
  checks of \<^verbatim>\<open>mu\<close> and \<^verbatim>\<open>sigma\<close> never fire, since both are arrays by then.
\<close>

theorem Core_init_always_raises:
  "(\<forall>self. Core_init mu sigma delta cluster \<noteq> Inr self) \<and>
   Core_init mu sigma delta cluster =
     Inl (if refused mu \<or> refused sigma then ValueError sequence_msg
          else if isscalar delta then ValueError delta_msg
          else TypeError isinstance_msg)"
  by (simp add: Core_init_result)

theorem Core_init_always_raises_witness:
  "Core_init (VList [VInt 0, VInt 0]) (VList [VInt 1, VInt 1]) (VList [VInt 1])
     (VInstance C_CoreCluster 0) = Inl (TypeError isinstance_msg)"
  using Core_init_always_raises
    [of "VList [VInt 0, VInt 0]" "VList [VInt 1, VInt 1]" "VList [VInt 1]"
        "VInstance C_CoreCluster 0"]
  by (simp add: refused_def max_dims_def list_shape_def)

text \<open>
  C2, as it was stated, allows two ways only: a scalar check of \<^verbatim>\<open>mu\<close>, \<^verbatim>\<open>sigma\<close> or
  \<^verbatim>\<open>delta\<close>, or the \<^verbatim>\<open>TypeError\<close> of the cluster check. With the mean \<^verbatim>\<open>[[1, 2], [3]]\<close>,
  of inhomogeneous shape, and a weight given as a sequence, no argument is a scalar
  and the error is neither of those: it is the \<^verbatim>\<open>ValueError\<close> of the conversion.
\<close>

theorem Core_init_two_ways_counterexample:
  "Core_init (VList [VList [VInt 1, VInt 2], VList [VInt 3]]) (VList [VInt 1])
     (VList [VInt 1]) VNone = Inl (ValueError sequence_msg) \<and>
   \<not> isscalar (VList [VList [VInt 1, VInt 2], VList [VInt 3]]) \<and>
   \<not> isscalar (VList [VInt 1]) \<and>
   sequence_msg \<noteq> mu_msg \<and> sequence_msg \<noteq> sigma_msg \<and> sequence_msg \<noteq> delta_msg \<and>
   ValueError sequence_msg \<noteq> TypeError isinstance_msg"
  by (simp add: Core_init_def asarray_def list_shape_def sequence_msg_def mu_msg_def
      sigma_msg_def delta_msg_def)

text \<open>
  C8. Whenever the weight \<^verbatim>\<open>delta\<close> is a bare scalar the construction of a \<^verbatim>\<open>Core\<close> fails
  with \<^verbatim>\<open>ValueError\<close>: with the message of the \<^verbatim>\<open>delta\<close> check when \<^verbatim>\<open>mu\<close> and \<^verbatim>\<open>sigma\<close>
  convert to arrays, and with the message of the conversion otherwise.
\<close>

theorem Core_init_scalar_delta:
  assumes "isscalar delta"
  shows "Core_init mu sigma delta cluster =
     Inl (ValueError (if refused mu \<or> refused sigma then sequence_msg else delta_msg))"
  using assms by (simp add: Core_init_result)

theorem Core_init_scalar_delta_witness:
  "isscalar (VFloat 0x3FE0000000000000) \<and>
   Core_init (VList [VInt 0, VInt 0]) (VList [VInt 1, VInt 1])
     (VFloat 0x3FE0000000000000) VNone = Inl (ValueError delta_msg)"
  using Core_init_scalar_delta
    [of "VFloat 0x3FE0000000000000" "VList [VInt 0, VInt 0]" "VList [VInt 1, VInt 1]" VNone]
  by (simp add: refused_def max_dims_def list_shape_def)

text \<open>
  C3. The construction with all default arguments does not succeed: the default weight
  \<^verbatim>\<open>delta=1\<close> is a scalar, and the check of \<^verbatim>\<open>delta\<close> raises \<^verbatim>\<open>ValueError\<close>.
\<close>

theorem Core_default_raises: "Core_default = Inl (ValueError delta_msg)"
  by (simp add: Core_default_def Core_eval)

text \<open>
  C1. A mean and a covariance of equal trailing dimension, with a weight given as a
  sequence and no cluster: the construction raises \<^verbatim>\<open>TypeError\<close> at the cluster check
  and never assigns the dimensionality.
\<close>

theorem Core_init_equal_dims_raises:
  "Core_init (VList [VInt 0]) (VList [VInt 1]) (VList [VInt 1]) VNone
     = Inl (TypeError isinstance_msg)"
  by (simp add: Core_eval)

text \<open>
  C4. A mean of trailing dimension 2 and a covariance of trailing dimension 1: the
  construction raises \<^verbatim>\<open>TypeError\<close> at the cluster check, before the comparison of the
  dimensions, and not the \<^verbatim>\<open>ValueError\<close> of the mismatch.
\<close>

theorem Core_init_unequal_dims_raises:
  "Core_init (VList [VInt 0, VInt 0]) (VList [VInt 1]) (VList [VInt 1]) VNone
     = Inl (TypeError isinstance_msg)"
  by (simp add: Core_eval)

text \<open>
  \<^verbatim>\<open>pdf\<close> validates the instance before it evaluates the density, so it never returns,
  whatever the instance, the query and the density routine.
\<close>

lemma pdf_never_returns: "\<exists>e. pdf mvn_pdf self data = Inl e"
proof -
  obtain e where "Core_validate_init self = Inl e"
    using Core_validate_init_raises by blast
  then show ?thesis by (simp add: pdf_def)
qed

text \<open>
  C5. An instance with the attributes that \<^verbatim>\<open>Core(mu=[0], sigma=[1], delta=[1])\<close> assigns
  before it validates, queried at the batch \<^verbatim>\<open>[[0]]\<close> of one point: \<^verbatim>\<open>pdf\<close> returns no
  density value, it raises \<^verbatim>\<open>TypeError\<close> in the validation.
\<close>

theorem pdf_raises:
  "pdf mvn_pdf
     [''dim'' \<mapsto> VInt (- 1), ''mu'' \<mapsto> VArray Dt_int64 [1] [VInt 0],
      ''sigma'' \<mapsto> VArray Dt_int64 [1] [VInt 1], ''delta'' \<mapsto> VList [VInt 1],
      ''cluster'' \<mapsto> VNone]
     (VList [VList [VInt 0]]) = Inl (TypeError isinstance_msg)"
  by (simp add: pdf_def Core_validate_init_arrays)

section \<open>\<^verbatim>\<open>CoreCluster\<close>: construction\<close>

lemma check_collection_missing:
  "self name = None \<Longrightarrow> check_collection self name cls msg = Inl (AttributeError name)"
  by (simp add: check_collection_def getattr_def)

lemma check_collection_empty:
  "self name = Some (VArray dt (0 # sh) items) \<Longrightarrow>
   check_collection self name cls msg = Inl (ValueError msg)"
  by (simp add: check_collection_def getattr_def array_iter_empty)

text \<open>
  The constructor stores the parents under \<^verbatim>\<open>parent\<close> and the validation reads
  \<^verbatim>\<open>parents\<close>: no construction of a \<^verbatim>\<open>CoreCluster\<close> returns.
\<close>

lemma CoreCluster_validate_init_raises:
  "self ''parents'' = None \<Longrightarrow> \<exists>e. CoreCluster_validate_init self = Inl e"
  by (auto simp: CoreCluster_validate_init_def check_collection_missing split: sum.splits)

lemma CoreCluster_init_never_returns:
  "\<exists>e. CoreCluster_init cores parents children = Inl e"
  by (auto simp: CoreCluster_init_def split: sum.splits
      intro!: CoreCluster_validate_init_raises)

text \<open>
  C7. The construction of a \<^verbatim>\<open>CoreCluster\<close> from an empty collection of cores (a
  collection whose first dimension is 0: \<^verbatim>\<open>[]\<close>, \<^verbatim>\<open>()\<close>, an empty array) fails with
  \<^verbatim>\<open>ValueError\<close>: with the message of the \<^verbatim>\<open>cores\<close> check, since the set of the types of
  its items is empty, when \<^verbatim>\<open>parents\<close> and \<^verbatim>\<open>children\<close> convert to arrays, and with the
  message of the conversion otherwise.
\<close>

theorem CoreCluster_init_empty_cores:
  assumes "shape_of cores = Some (0 # sh)"
  shows "CoreCluster_init cores parents children =
     Inl (ValueError (if refused parents \<or> refused children then sequence_msg
                      else cores_msg))"
proof -
  obtain dt items where c: "asarray cores = Inr (VArray dt (0 # sh) items)"
    using assms asarray_empty by blast
  show ?thesis
  proof (cases "refused parents")
    case True
    then show ?thesis by (simp add: CoreCluster_init_def c asarray_refused)
  next
    case p: False
    then obtain dtp shp xsp where ap: "asarray parents = Inr (VArray dtp shp xsp)"
      using asarray_not_refused by blast
    show ?thesis
    proof (cases "refused children")
      case True
      then show ?thesis by (simp add: CoreCluster_init_def c ap asarray_refused)
    next
      case False
      then obtain dtc shc xsc where ac: "asarray children = Inr (VArray dtc shc xsc)"
        using asarray_not_refused by blast
      have "check_collection
              [''cores'' \<mapsto> VArray dt (0 # sh) items, ''parent'' \<mapsto> VArray dtp shp xsp,
               ''children'' \<mapsto> VArray dtc shc xsc] ''cores'' C_Core cores_msg
            = Inl (ValueError cores_msg)"
        by (rule check_collection_empty) simp
      then show ?thesis
        using p False by (simp add: CoreCluster_init_def c ap ac CoreCluster_validate_init_def)
    qed
  qed
qed

theorem CoreCluster_init_empty_cores_witness:
  "shape_of (VList []) = Some [0] \<and>
   CoreCluster_init (VList []) (VList []) (VList []) = Inl (ValueError cores_msg)"
  using CoreCluster_init_empty_cores [of "VList []" "[]" "VList []" "VList []"]
  by (simp add: refused_def max_dims_def list_shape_def)

text \<open>
  C6. One \<^verbatim>\<open>Core\<close> as the cores, one \<^verbatim>\<open>CoreCluster\<close> as the parents and one as the
  children: the check of the cores passes, and the construction raises
  \<^verbatim>\<open>AttributeError\<close> on \<^verbatim>\<open>self.parents\<close> instead of returning the cluster.
\<close>

theorem CoreCluster_init_cores_raises:
  "CoreCluster_init (VList [VInstance C_Core 0]) (VList [VInstance C_CoreCluster 1])
     (VList [VInstance C_CoreCluster 2]) = Inl (AttributeError ''parents'')"
  by (simp add: CoreCluster_init_def asarray_def list_shape_def max_dims_def result_dtype_def
      CoreCluster_validate_init_def check_collection_def getattr_def array_iter_def box_def)

section \<open>\<^verbatim>\<open>create_random_state\<close>\<close>

lemma load_name_np: "load_name utils_globals ''np'' = Inl (NameError ''np'')"
  by (simp add: load_name_def utils_globals_def builtins_def)

lemma load_name_int: "load_name utils_globals ''int'' = Inr (VClass C_int)"
  by (simp add: load_name_def utils_globals_def builtins_def)

text \<open>
  C10. In its module, which never binds \<^verbatim>\<open>np\<close>, \<^verbatim>\<open>create_random_state\<close> raises \<^verbatim>\<open>NameError\<close>
  for every seed and returns none of its documented results: the first branch reads
  \<^verbatim>\<open>np\<close> in its \<^verbatim>\<open>return\<close>, the others in the condition of the first \<^verbatim>\<open>elif\<close>.
\<close>

theorem create_random_state_NameError:
  "create_random_state lib utils_globals seed = Inl (NameError ''np'')"
  by (simp add: create_random_state_def load_name_np load_name_int)

text \<open>
  C9. A generator handle as the seed is not returned: the call raises \<^verbatim>\<open>NameError\<close>.
\<close>

theorem create_random_state_handle_raises:
  "create_random_state lib utils_globals (VInstance C_RandomState g) = Inl (NameError ''np'')"
  by (simp add: create_random_state_def load_name_np load_name_int)

text \<open>
  With \<^verbatim>\<open>np\<close> bound to NumPy, as an \<^verbatim>\<open>import numpy as np\<close> in the module would do, the
  same code hands the generator back unchanged.
\<close>

lemma create_random_state_with_numpy:
  "create_random_state lib (utils_globals(''np'' \<mapsto> VModule ''numpy''))
     (VInstance C_RandomState g) = Inr (VInstance C_RandomState g)"
  by (simp add: create_random_state_def load_name_def utils_globals_def builtins_def
      np_attr_def issubclass_def)

end
